theory Spec2Isabelle
  imports Complex_Main "HOL-Library.Sublist"
begin

section \<open>The Falling Fruit API client (\<^verbatim>\<open>src/server.py\<close>)\<close>

text \<open>
  The client class \<^verbatim>\<open>FallingFruitAPI\<close> is embedded method by method.  Python
  \<^verbatim>\<open>float\<close> values are read as real numbers (exact arithmetic, no rounding, no
  NaN or infinity), Python \<^verbatim>\<open>int\<close> values as unbounded integers, and every
  exception the source can raise is a value of the type \<open>exn\<close>.
\<close>

subsection \<open>Exceptions\<close>

datatype exn =
    ValueError string
  | TypeError
  | KeyError string
  | ValidationError
  | TransportError
  | HTTPStatusError
  | JSONDecodeError

subsection \<open>Distance calculator\<close>

text \<open>\<^verbatim>\<open>math.radians\<close>, \<^verbatim>\<open>math.sqrt\<close> and \<^verbatim>\<open>math.asin\<close>; the last two raise
  \<^verbatim>\<open>ValueError("math domain error")\<close> outside their domain.\<close>

definition radians :: "real \<Rightarrow> real" where
  "radians x = x * pi / 180"

definition py_sqrt :: "real \<Rightarrow> exn + real" where
  "py_sqrt x = (if x < 0 then Inl (ValueError ''math domain error'') else Inr (sqrt x))"

definition py_asin :: "real \<Rightarrow> exn + real" where
  "py_asin x =
     (if x < - 1 \<or> 1 < x then Inl (ValueError ''math domain error'') else Inr (arcsin x))"

text \<open>The quantity \<^verbatim>\<open>a\<close> of \<^verbatim>\<open>_calculate_distance\<close>, after the four arguments
  have been converted to radians.\<close>

definition haversine_a :: "real \<Rightarrow> real \<Rightarrow> real \<Rightarrow> real \<Rightarrow> real" where
  "haversine_a lat1 lng1 lat2 lng2 =
     (let dlat = lat2 - lat1;
          dlng = lng2 - lng1
      in (sin (dlat / 2))\<^sup>2 + cos lat1 * cos lat2 * (sin (dlng / 2))\<^sup>2)"

definition R :: real where
  "R = 6371"

definition calculate_distance :: "real \<Rightarrow> real \<Rightarrow> real \<Rightarrow> real \<Rightarrow> exn + real" where
  "calculate_distance lat1 lng1 lat2 lng2 =
     (let a = haversine_a (radians lat1) (radians lng1) (radians lat2) (radians lng2)
      in case py_sqrt a of
           Inl e \<Rightarrow> Inl e
         | Inr r \<Rightarrow>
             (case py_asin r of
                Inl e \<Rightarrow> Inl e
              | Inr s \<Rightarrow> Inr (R * (2 * s))))"

subsection \<open>JSON values and pydantic validation\<close>

text \<open>What \<^verbatim>\<open>response.json()\<close> returns.  A JSON object is the list of the items
  of the Python dict in insertion order, so its keys are distinct; a key is looked up
  with \<open>map_of\<close>.\<close>

datatype json =
    JNull
  | JBool bool
  | JInt int
  | JFloat real
  | JStr string
  | JArr "json list"
  | JObj "(string \<times> json) list"

text \<open>\<^verbatim>\<open>for item in data\<close>: a list yields its elements, a dict its keys, a string its
  characters; any other JSON value is not iterable.\<close>

fun py_iter :: "json \<Rightarrow> exn + json list" where
  "py_iter (JArr xs) = Inr xs"
| "py_iter (JObj kvs) = Inr (map (\<lambda>kv. JStr (fst kv)) kvs)"
| "py_iter (JStr s) = Inr (map (\<lambda>c. JStr [c]) s)"
| "py_iter v = Inl TypeError"

text \<open>
  The two model classes derive from pydantic's \<^verbatim>\<open>BaseModel\<close>.  How pydantic coerces
  one raw value to a field of type \<^verbatim>\<open>int\<close>, \<^verbatim>\<open>float\<close> or \<^verbatim>\<open>str\<close> belongs to that
  library, not to this repository, so the three coercions are parameters of the
  embedding; \<open>None\<close> is a validation error.
\<close>

record pydantic =
  int_field :: "json \<Rightarrow> int option"
  float_field :: "json \<Rightarrow> real option"
  str_field :: "json \<Rightarrow> string option"

text \<open>A field of type \<^verbatim>\<open>list[T]\<close> takes a list whose elements all validate;
  a field of type \<^verbatim>\<open>Optional[int]\<close> also takes \<^verbatim>\<open>None\<close>.\<close>

fun list_field :: "(json \<Rightarrow> 'a option) \<Rightarrow> json \<Rightarrow> 'a list option" where
  "list_field f (JArr xs) = those (map f xs)"
| "list_field f v = None"

fun optional_field :: "(json \<Rightarrow> 'a option) \<Rightarrow> json \<Rightarrow> 'a option option" where
  "optional_field f JNull = Some None"
| "optional_field f v = map_option Some (f v)"

text \<open>A required keyword argument, and one with a default value.\<close>

definition required :: "(json \<Rightarrow> 'a option) \<Rightarrow> (string \<times> json) list \<Rightarrow> string \<Rightarrow> 'a option" where
  "required f kwargs k = (case map_of kwargs k of None \<Rightarrow> None | Some v \<Rightarrow> f v)"

definition with_default ::
  "(json \<Rightarrow> 'a option) \<Rightarrow> 'a \<Rightarrow> (string \<times> json) list \<Rightarrow> string \<Rightarrow> 'a option" where
  "with_default f d kwargs k = (case map_of kwargs k of None \<Rightarrow> Some d | Some v \<Rightarrow> f v)"

subsection \<open>The model classes\<close>

record FruitLocation =
  loc_id :: int
  lat :: real
  lng :: real
  type_ids :: "int list"
  description :: string
  access :: int
  season_start :: "int option"
  season_stop :: "int option"

record FruitType =
  ft_id :: int
  name :: string
  scientific_name :: string
  common_names :: "string list"
  scientific_names :: "string list"

text \<open>\<^verbatim>\<open>FruitLocation(**item)\<close>: only a dict can be unpacked into keyword arguments;
  keys that are not fields are ignored.\<close>

definition validate_location :: "pydantic \<Rightarrow> (string \<times> json) list \<Rightarrow> FruitLocation option" where
  "validate_location pyd item =
     Option.bind (required (int_field pyd) item ''id'') (\<lambda>i.
     Option.bind (required (float_field pyd) item ''lat'') (\<lambda>y.
     Option.bind (required (float_field pyd) item ''lng'') (\<lambda>x.
     Option.bind (with_default (list_field (int_field pyd)) [] item ''type_ids'') (\<lambda>ts.
     Option.bind (with_default (str_field pyd) [] item ''description'') (\<lambda>d.
     Option.bind (with_default (int_field pyd) 0 item ''access'') (\<lambda>a.
     Option.bind (with_default (optional_field (int_field pyd)) None item ''season_start'') (\<lambda>s0.
     Option.bind (with_default (optional_field (int_field pyd)) None item ''season_stop'') (\<lambda>s1.
     Some \<lparr>loc_id = i, lat = y, lng = x, type_ids = ts, description = d, access = a,
           season_start = s0, season_stop = s1\<rparr>))))))))"

fun FruitLocation_init :: "pydantic \<Rightarrow> json \<Rightarrow> exn + FruitLocation" where
  "FruitLocation_init pyd (JObj item) =
     (case validate_location pyd item of
        None \<Rightarrow> Inl ValidationError
      | Some location \<Rightarrow> Inr location)"
| "FruitLocation_init pyd v = Inl TypeError"

text \<open>\<^verbatim>\<open>FruitType(id=..., name=..., scientific_name=..., common_names=...,
  scientific_names=...)\<close> on raw values.\<close>

definition validate_type ::
  "pydantic \<Rightarrow> json \<Rightarrow> json \<Rightarrow> json \<Rightarrow> json list \<Rightarrow> json list \<Rightarrow> FruitType option" where
  "validate_type pyd idv namev sciv commons scis =
     Option.bind (int_field pyd idv) (\<lambda>i.
     Option.bind (str_field pyd namev) (\<lambda>n.
     Option.bind (str_field pyd sciv) (\<lambda>s.
     Option.bind (those (map (str_field pyd) commons)) (\<lambda>cs.
     Option.bind (those (map (str_field pyd) scis)) (\<lambda>ss.
     Some \<lparr>ft_id = i, name = n, scientific_name = s, common_names = cs,
           scientific_names = ss\<rparr>)))))"

definition FruitType_init ::
  "pydantic \<Rightarrow> json \<Rightarrow> json \<Rightarrow> json \<Rightarrow> json list \<Rightarrow> json list \<Rightarrow> exn + FruitType" where
  "FruitType_init pyd idv namev sciv commons scis =
     (case validate_type pyd idv namev sciv commons scis of
        None \<Rightarrow> Inl ValidationError
      | Some fruit_type \<Rightarrow> Inr fruit_type)"

subsection \<open>Client state, requests and responses\<close>

text \<open>Module level: \<^verbatim>\<open>API_KEY = os.getenv(...)\<close>, with the empty string replaced by
  \<^verbatim>\<open>None\<close>; the argument is what \<^verbatim>\<open>os.getenv\<close> returned.\<close>

definition API_KEY :: "string option \<Rightarrow> string option" where
  "API_KEY env = (if env = Some [] then None else env)"

text \<open>The instance attributes.  A time is a number of microseconds, the resolution of
  \<^verbatim>\<open>datetime\<close>; \<^verbatim>\<open>_cache_duration\<close> is the constant \<^verbatim>\<open>timedelta(hours=24)\<close>.\<close>

record FallingFruitAPI =
  api_key :: "string option"
  types_cache :: "FruitType list option"
  cache_timestamp :: "int option"

definition cache_duration :: int where
  "cache_duration = 24 * 60 * 60 * 1000000"

definition FallingFruitAPI_init :: "string option \<Rightarrow> FallingFruitAPI" where
  "FallingFruitAPI_init env =
     \<lparr>api_key = API_KEY env, types_cache = None, cache_timestamp = None\<rparr>"

text \<open>The truth value of an optional string, as in \<^verbatim>\<open>if not self.api_key\<close> and
  \<^verbatim>\<open>if not query\<close>: \<^verbatim>\<open>None\<close> and the empty string are both false.\<close>

fun truthy :: "string option \<Rightarrow> bool" where
  "truthy None = False"
| "truthy (Some k) = (k \<noteq> [])"

definition key_missing :: exn where
  "key_missing = ValueError
     ''Falling Fruit API key is not set. Please set the FALLING_FRUIT_API_KEY environment variable.''"

text \<open>
  A request that leaves the process: the types collection with the key header, or the
  locations collection with center, limit, the optional \<^verbatim>\<open>types\<close> parameter and the key
  header (the parameter \<^verbatim>\<open>photo\<close> is always 0 and is left out).  The remote service is a function from the request to what comes back:
  \<^verbatim>\<open>client.get\<close> raises, \<^verbatim>\<open>raise_for_status\<close> raises, \<^verbatim>\<open>response.json()\<close> raises, or
  a JSON value is returned.  Every request sent is appended to a log.
\<close>

datatype request =
    Get_types string
  | Get_locations real real int "int option" string

datatype response =
    Request_failed
  | Error_status
  | Bad_body
  | Json_body json

fun response_json :: "response \<Rightarrow> exn + json" where
  "response_json Request_failed = Inl TransportError"
| "response_json Error_status = Inl HTTPStatusError"
| "response_json Bad_body = Inl JSONDecodeError"
| "response_json (Json_body data) = Inr data"

subsection \<open>\<^verbatim>\<open>get_locations\<close>\<close>

text \<open>The parameters \<^verbatim>\<open>lat\<close> and \<^verbatim>\<open>lng\<close> of \<^verbatim>\<open>get_locations\<close> are written
  \<open>center_lat\<close> and \<open>center_lng\<close>, apart from the fields of the same name.\<close>

text \<open>The body of the loop over \<^verbatim>\<open>data\<close>: the \<^verbatim>\<open>try\<close> block either appends the
  location or leaves the list as it is; any exception continues with the next item.
  \<^verbatim>\<open>radius_km and ...\<close> is false for radius 0 without computing the distance.\<close>

fun locations_loop ::
  "pydantic \<Rightarrow> real \<Rightarrow> real \<Rightarrow> int \<Rightarrow> json list \<Rightarrow> FruitLocation list \<Rightarrow> FruitLocation list" where
  "locations_loop pyd center_lat center_lng radius_km [] locations = locations"
| "locations_loop pyd center_lat center_lng radius_km (item # data) locations =
     (case FruitLocation_init pyd item of
        Inl e \<Rightarrow> locations_loop pyd center_lat center_lng radius_km data locations
      | Inr location \<Rightarrow>
          if radius_km = 0 then locations_loop pyd center_lat center_lng radius_km data locations
          else
            (case calculate_distance center_lat center_lng
                    (lat location) (lng location) of
               Inl e \<Rightarrow> locations_loop pyd center_lat center_lng radius_km data locations
             | Inr d \<Rightarrow>
                 if d \<le> real_of_int radius_km
                 then locations_loop pyd center_lat center_lng radius_km data (locations @ [location])
                 else locations_loop pyd center_lat center_lng radius_km data locations))"

text \<open>The slice \<^verbatim>\<open>xs[:n]\<close>; a negative \<^verbatim>\<open>n\<close> counts from the end.\<close>

definition slice_to :: "'a list \<Rightarrow> int \<Rightarrow> 'a list" where
  "slice_to xs n = (if 0 \<le> n then take (nat n) xs else take (length xs - nat (- n)) xs)"

text \<open>\<^verbatim>\<open>if type_id:\<close> adds the parameter for an identifier that is neither \<^verbatim>\<open>None\<close>
  nor 0.\<close>

fun types_param :: "int option \<Rightarrow> int option" where
  "types_param None = None"
| "types_param (Some t) = (if t = 0 then None else Some t)"

definition get_locations ::
  "pydantic \<Rightarrow> (request \<Rightarrow> response) \<Rightarrow> real \<Rightarrow> real \<Rightarrow> int \<Rightarrow> int option \<Rightarrow> int \<Rightarrow>
   FallingFruitAPI \<Rightarrow> request list \<Rightarrow>
   (exn + FruitLocation list) \<times> FallingFruitAPI \<times> request list" where
  "get_locations pyd remote center_lat center_lng radius_km type_id limit self sent =
     (if \<not> truthy (api_key self) then (Inl key_missing, self, sent)
      else
        let req = Get_locations center_lat center_lng limit (types_param type_id) (the (api_key self));
            sent' = sent @ [req]
        in case response_json (remote req) of
             Inl e \<Rightarrow> (Inl e, self, sent')
           | Inr data \<Rightarrow>
               (case py_iter data of
                  Inl e \<Rightarrow> (Inl e, self, sent')
                | Inr items \<Rightarrow>
                    (Inr (slice_to (locations_loop pyd center_lat center_lng radius_km items []) limit),
                     self, sent')))"

subsection \<open>\<^verbatim>\<open>get_all_types\<close>\<close>

text \<open>The inner loop over \<^verbatim>\<open>item['common_names'].items()\<close> extends the list by the
  names of every language whose value is a list.\<close>

fun names_of_lang :: "json \<Rightarrow> json list" where
  "names_of_lang (JArr names) = names"
| "names_of_lang v = []"

definition collect_common_names :: "(string \<times> json) list \<Rightarrow> json list" where
  "collect_common_names item =
     (case map_of item ''common_names'' of
        Some (JObj langs) \<Rightarrow> concat (map (\<lambda>kv. names_of_lang (snd kv)) langs)
      | _ \<Rightarrow> [])"

definition collect_scientific_names :: "(string \<times> json) list \<Rightarrow> json list" where
  "collect_scientific_names item =
     (case map_of item ''scientific_names'' of
        Some (JArr names) \<Rightarrow> names
      | _ \<Rightarrow> [])"

definition primary_name :: "json list \<Rightarrow> json list \<Rightarrow> json" where
  "primary_name commons scis =
     (case commons of
        c # cs \<Rightarrow> c
      | [] \<Rightarrow> (case scis of s # ss \<Rightarrow> s | [] \<Rightarrow> JStr ''Unknown''))"

definition primary_scientific :: "json list \<Rightarrow> json" where
  "primary_scientific scis = (case scis of s # ss \<Rightarrow> s | [] \<Rightarrow> JStr [])"

text \<open>The \<^verbatim>\<open>try\<close> block for one raw record.  An item that is not a dict raises
  \<^verbatim>\<open>TypeError\<close> at one of the membership tests or subscripts, whatever its value;
  a dict without the key \<^verbatim>\<open>id\<close> raises \<^verbatim>\<open>KeyError\<close> at \<^verbatim>\<open>item['id']\<close>.\<close>

fun parse_type :: "pydantic \<Rightarrow> json \<Rightarrow> exn + FruitType" where
  "parse_type pyd (JObj item) =
     (let commons = collect_common_names item;
          scis = collect_scientific_names item
      in case map_of item ''id'' of
           None \<Rightarrow> Inl (KeyError ''id'')
         | Some idv \<Rightarrow>
             FruitType_init pyd idv (primary_name commons scis) (primary_scientific scis)
               commons scis)"
| "parse_type pyd v = Inl TypeError"

fun types_loop :: "pydantic \<Rightarrow> json list \<Rightarrow> FruitType list \<Rightarrow> FruitType list" where
  "types_loop pyd [] types = types"
| "types_loop pyd (item # data) types =
     (case parse_type pyd item of
        Inl e \<Rightarrow> types_loop pyd data types
      | Inr fruit_type \<Rightarrow> types_loop pyd data (types @ [fruit_type]))"

text \<open>The cache check: both attributes are set and the age is below the duration.\<close>

definition cache_hit :: "FallingFruitAPI \<Rightarrow> int \<Rightarrow> bool" where
  "cache_hit self now =
     (types_cache self \<noteq> None \<and> cache_timestamp self \<noteq> None \<and>
      now - the (cache_timestamp self) < cache_duration)"

text \<open>\<open>now\<close> is the value of \<^verbatim>\<open>datetime.now()\<close> during the call.\<close>

definition get_all_types ::
  "pydantic \<Rightarrow> (request \<Rightarrow> response) \<Rightarrow> int \<Rightarrow> FallingFruitAPI \<Rightarrow> request list \<Rightarrow>
   (exn + FruitType list) \<times> FallingFruitAPI \<times> request list" where
  "get_all_types pyd remote now self sent =
     (if \<not> truthy (api_key self) then (Inl key_missing, self, sent)
      else if cache_hit self now then (Inr (the (types_cache self)), self, sent)
      else
        let req = Get_types (the (api_key self));
            sent' = sent @ [req]
        in case response_json (remote req) of
             Inl e \<Rightarrow> (Inl e, self, sent')
           | Inr data \<Rightarrow>
               (case py_iter data of
                  Inl e \<Rightarrow> (Inl e, self, sent')
                | Inr items \<Rightarrow>
                    (let types = types_loop pyd items []
                     in (Inr types,
                         self\<lparr>types_cache := Some types, cache_timestamp := Some now\<rparr>,
                         sent'))))"

subsection \<open>\<^verbatim>\<open>get_types\<close> and \<^verbatim>\<open>find_fruit_type_by_name\<close>\<close>

text \<open>\<^verbatim>\<open>str.lower\<close> on the ASCII letters; other characters are kept.  \<^verbatim>\<open>a in b\<close> on
  strings is \<open>sublist a b\<close>.\<close>

definition lower_char :: "char \<Rightarrow> char" where
  "lower_char c =
     (let n = (of_char c :: nat) in if 65 \<le> n \<and> n \<le> 90 then char_of (n + 32) else c)"

definition lower :: "string \<Rightarrow> string" where
  "lower s = map lower_char s"

definition all_names :: "FruitType \<Rightarrow> string list" where
  "all_names fruit_type = common_names fruit_type @ scientific_names fruit_type"

text \<open>The inner loops: does some name contain, or equal, the lowered text?\<close>

fun some_name_contains :: "string \<Rightarrow> string list \<Rightarrow> bool" where
  "some_name_contains q [] = False"
| "some_name_contains q (n # ns) = (if sublist q (lower n) then True else some_name_contains q ns)"

fun some_name_equals :: "string \<Rightarrow> string list \<Rightarrow> bool" where
  "some_name_equals q [] = False"
| "some_name_equals q (n # ns) = (if lower n = q then True else some_name_equals q ns)"

fun filter_loop :: "string \<Rightarrow> FruitType list \<Rightarrow> FruitType list \<Rightarrow> FruitType list" where
  "filter_loop query_lower [] filtered_types = filtered_types"
| "filter_loop query_lower (fruit_type # rest) filtered_types =
     (if some_name_contains query_lower (all_names fruit_type)
      then filter_loop query_lower rest (filtered_types @ [fruit_type])
      else filter_loop query_lower rest filtered_types)"

definition get_types ::
  "pydantic \<Rightarrow> (request \<Rightarrow> response) \<Rightarrow> int \<Rightarrow> string option \<Rightarrow> FallingFruitAPI \<Rightarrow>
   request list \<Rightarrow> (exn + FruitType list) \<times> FallingFruitAPI \<times> request list" where
  "get_types pyd remote now query self sent =
     (case get_all_types pyd remote now self sent of
        (Inl e, self', sent') \<Rightarrow> (Inl e, self', sent')
      | (Inr all_types, self', sent') \<Rightarrow>
          (if \<not> truthy query then (Inr all_types, self', sent')
           else (Inr (filter_loop (lower (the query)) all_types []), self', sent')))"

fun exact_loop :: "string \<Rightarrow> FruitType list \<Rightarrow> FruitType option" where
  "exact_loop name_lower [] = None"
| "exact_loop name_lower (fruit_type # rest) =
     (if some_name_equals name_lower (all_names fruit_type) then Some fruit_type
      else exact_loop name_lower rest)"

fun partial_loop :: "string \<Rightarrow> FruitType list \<Rightarrow> FruitType option" where
  "partial_loop name_lower [] = None"
| "partial_loop name_lower (fruit_type # rest) =
     (if some_name_contains name_lower (all_names fruit_type) then Some fruit_type
      else partial_loop name_lower rest)"

definition find_fruit_type_by_name ::
  "pydantic \<Rightarrow> (request \<Rightarrow> response) \<Rightarrow> int \<Rightarrow> string \<Rightarrow> FallingFruitAPI \<Rightarrow>
   request list \<Rightarrow> (exn + FruitType option) \<times> FallingFruitAPI \<times> request list" where
  "find_fruit_type_by_name pyd remote now wanted_name self sent =
     (case get_all_types pyd remote now self sent of
        (Inl e, self', sent') \<Rightarrow> (Inl e, self', sent')
      | (Inr all_types, self', sent') \<Rightarrow>
          (case exact_loop (lower wanted_name) all_types of
             Some fruit_type \<Rightarrow> (Inr (Some fruit_type), self', sent')
           | None \<Rightarrow> (Inr (partial_loop (lower wanted_name) all_types), self', sent')))"

subsection \<open>The properties' vocabulary\<close>

text \<open>A raw record is salvageable when its \<^verbatim>\<open>try\<close> block completes.\<close>

definition salvage_type :: "pydantic \<Rightarrow> json \<Rightarrow> FruitType option" where
  "salvage_type pyd item =
     (case parse_type pyd item of Inl e \<Rightarrow> None | Inr fruit_type \<Rightarrow> Some fruit_type)"

definition salvage_location :: "pydantic \<Rightarrow> json \<Rightarrow> FruitLocation option" where
  "salvage_location pyd item =
     (case FruitLocation_init pyd item of Inl e \<Rightarrow> None | Inr location \<Rightarrow> Some location)"

text \<open>The haversine distance of a location from the center is defined and does not
  exceed the radius.\<close>

definition within_radius :: "real \<Rightarrow> real \<Rightarrow> int \<Rightarrow> FruitLocation \<Rightarrow> bool" where
  "within_radius center_lat center_lng radius_km location =
     (case calculate_distance center_lat center_lng (lat location) (lng location) of
        Inl e \<Rightarrow> False
      | Inr d \<Rightarrow> d \<le> real_of_int radius_km)"

text \<open>A well-shaped taxonomy record: \<^verbatim>\<open>common_names\<close> maps a language code to a list
  of names, \<^verbatim>\<open>scientific_names\<close> is a flat list of names; either may be missing.\<close>

definition lang_dict :: "(string \<times> string list) list \<Rightarrow> json" where
  "lang_dict langs = JObj (map (\<lambda>kv. (fst kv, JArr (map JStr (snd kv)))) langs)"

definition name_list :: "string list \<Rightarrow> json" where
  "name_list names = JArr (map JStr names)"

definition flattened :: "(string \<times> string list) list option \<Rightarrow> string list" where
  "flattened langs = (case langs of None \<Rightarrow> [] | Some kvs \<Rightarrow> concat (map snd kvs))"

definition verbatim :: "string list option \<Rightarrow> string list" where
  "verbatim names = (case names of None \<Rightarrow> [] | Some ns \<Rightarrow> ns)"

definition display_name :: "string list \<Rightarrow> string list \<Rightarrow> string" where
  "display_name commons scis =
     (case commons of
        c # cs \<Rightarrow> c
      | [] \<Rightarrow> (case scis of s # ss \<Rightarrow> s | [] \<Rightarrow> ''Unknown''))"



text \<open>The two name tests of the type search, on one FruitType: the lowercase text is a
  substring of, or equal to, the lowercase form of one of its names.\<close>

definition contains_query :: "string \<Rightarrow> FruitType \<Rightarrow> bool" where
  "contains_query q fruit_type =
     (\<exists>n \<in> set (common_names fruit_type @ scientific_names fruit_type).
        sublist (lower q) (lower n))"

definition equals_name :: "string \<Rightarrow> FruitType \<Rightarrow> bool" where
  "equals_name q fruit_type =
     (\<exists>n \<in> set (common_names fruit_type @ scientific_names fruit_type).
        lower n = lower q)"

text \<open>The two-phase policy in the specification's words: the first exact match in
  cache order, otherwise the first substring match in cache order, otherwise nothing.\<close>

definition resolve_exact_or_best :: "string \<Rightarrow> FruitType list \<Rightarrow> FruitType option" where
  "resolve_exact_or_best q all_types =
     (case List.find (equals_name q) all_types of
        Some fruit_type \<Rightarrow> Some fruit_type
      | None \<Rightarrow> List.find (contains_query q) all_types)"

subsection \<open>Values for the examples\<close>

text \<open>A validation that takes a JSON value of the field's own type, and an integer
  for a float.\<close>

definition strict :: pydantic where
  "strict =
     \<lparr>int_field = (\<lambda>v. case v of JInt n \<Rightarrow> Some n | _ \<Rightarrow> None),
      float_field =
        (\<lambda>v. case v of JFloat r \<Rightarrow> Some r | JInt n \<Rightarrow> Some (real_of_int n) | _ \<Rightarrow> None),
      str_field = (\<lambda>v. case v of JStr s \<Rightarrow> Some s | _ \<Rightarrow> None)\<rparr>"

definition client :: FallingFruitAPI where
  "client = FallingFruitAPI_init (Some ''secret'')"

definition apple :: FruitType where
  "apple = \<lparr>ft_id = 14, name = ''Apple'', scientific_name = ''Malus domestica'',
     common_names = [''Apple''], scientific_names = [''Malus domestica'']\<rparr>"

definition crabapple :: FruitType where
  "crabapple = \<lparr>ft_id = 15, name = ''Crabapple'', scientific_name = ''Malus sylvestris'',
     common_names = [''Crabapple''], scientific_names = [''Malus sylvestris'']\<rparr>"

definition pear :: FruitType where
  "pear = \<lparr>ft_id = 16, name = ''Pear'', scientific_name = ''Pyrus communis'',
     common_names = [''Pear'', ''Poire''], scientific_names = [''Pyrus communis'']\<rparr>"

definition apple_record :: json where
  "apple_record = JObj
     [(''id'', JInt 14),
      (''common_names'',
         JObj [(''en'', JArr [JStr ''Apple'', JStr ''Crabapple'']),
               (''fr'', JArr [JStr ''Pomme''])]),
      (''scientific_names'', JArr [JStr ''Malus domestica''])]"

definition nameless_record :: json where
  "nameless_record = JObj [(''id'', JInt 3)]"

definition no_id_record :: json where
  "no_id_record = JObj [(''scientific_names'', JArr [JStr ''Rubus''])]"

definition place :: "int \<Rightarrow> int \<Rightarrow> int \<Rightarrow> json" where
  "place i y x = JObj [(''id'', JInt i), (''lat'', JInt y), (''lng'', JInt x)]"

definition location_at :: "int \<Rightarrow> int \<Rightarrow> int \<Rightarrow> FruitLocation" where
  "location_at i y x =
     \<lparr>loc_id = i, lat = real_of_int y, lng = real_of_int x, type_ids = [], description = [],
      access = 0, season_start = None, season_stop = None\<rparr>"

definition cached_client :: "FruitType list \<Rightarrow> FallingFruitAPI" where
  "cached_client types = client\<lparr>types_cache := Some types, cache_timestamp := Some 0\<rparr>"

definition types_remote :: "request \<Rightarrow> response" where
  "types_remote req = Json_body (JArr [apple_record, no_id_record, JInt 7, nameless_record])"

definition failing_remote :: "request \<Rightarrow> response" where
  "failing_remote req = Error_status"

definition places_remote :: "request \<Rightarrow> response" where
  "places_remote req = Json_body (JArr [place 1 0 0, place 2 0 180, JNull, place 3 0 0])"

definition twins_remote :: "request \<Rightarrow> response" where
  "twins_remote req = Json_body (JArr [place 1 0 0, place 2 0 0])"

definition apple_parsed :: FruitType where
  "apple_parsed = \<lparr>ft_id = 14, name = ''Apple'', scientific_name = ''Malus domestica'',
     common_names = [''Apple'', ''Crabapple'', ''Pomme''],
     scientific_names = [''Malus domestica'']\<rparr>"

definition nameless_parsed :: FruitType where
  "nameless_parsed = \<lparr>ft_id = 3, name = ''Unknown'', scientific_name = [],
     common_names = [], scientific_names = []\<rparr>"

section \<open>Distance calculator: properties\<close>

lemma haversine_a_alt:
  "haversine_a p1 g1 p2 g2 =
     (sin ((p2 - p1) / 2))\<^sup>2 + cos p1 * cos p2 * (sin ((g2 - g1) / 2))\<^sup>2"
  by (simp add: haversine_a_def)

lemma cos_product_bounds:
  fixes p1 p2 :: real
  shows "- ((sin ((p2 - p1) / 2))\<^sup>2) \<le> cos p1 * cos p2"
    and "cos p1 * cos p2 \<le> 1 - (sin ((p2 - p1) / 2))\<^sup>2"
proof -
  have prod: "2 * (cos p1 * cos p2) = cos (p2 - p1) + cos (p2 + p1)"
    by (simp add: cos_diff cos_add)
  have half: "2 * ((p2 - p1) / 2) = p2 - p1"
    by simp
  have dbl: "cos (p2 - p1) = 1 - 2 * (sin ((p2 - p1) / 2))\<^sup>2"
    using cos_double_sin [of "(p2 - p1) / 2"] by (simp only: half)
  have lo: "- 1 \<le> cos (p2 + p1)" and hi: "cos (p2 + p1) \<le> 1"
    by simp_all
  show "- ((sin ((p2 - p1) / 2))\<^sup>2) \<le> cos p1 * cos p2"
    using prod dbl lo by linarith
  show "cos p1 * cos p2 \<le> 1 - (sin ((p2 - p1) / 2))\<^sup>2"
    using prod dbl hi by linarith
qed

lemma haversine_a_nonneg: "0 \<le> haversine_a p1 g1 p2 g2"
proof -
  define u where "u = (sin ((p2 - p1) / 2))\<^sup>2"
  define s where "s = (sin ((g2 - g1) / 2))\<^sup>2"
  define c where "c = cos p1 * cos p2"
  have u0: "0 \<le> u" and s0: "0 \<le> s" by (simp_all add: u_def s_def)
  have s1: "s \<le> 1" unfolding s_def by (simp add: abs_square_le_1)
  have cl: "- u \<le> c" unfolding u_def c_def by (rule cos_product_bounds)
  have "- u * s \<le> c * s" using cl s0 by (rule mult_right_mono)
  moreover have "u * s \<le> u * 1" using s1 u0 by (rule mult_left_mono)
  ultimately have "0 \<le> u + c * s" by simp
  thus ?thesis by (simp add: haversine_a_alt u_def s_def c_def)
qed

lemma haversine_a_le_1: "haversine_a p1 g1 p2 g2 \<le> 1"
proof -
  define u where "u = (sin ((p2 - p1) / 2))\<^sup>2"
  define s where "s = (sin ((g2 - g1) / 2))\<^sup>2"
  define c where "c = cos p1 * cos p2"
  have u0: "0 \<le> u" and s0: "0 \<le> s" by (simp_all add: u_def s_def)
  have s1: "s \<le> 1" unfolding s_def by (simp add: abs_square_le_1)
  have u1: "u \<le> 1" unfolding u_def by (simp add: abs_square_le_1)
  have ch: "c \<le> 1 - u" unfolding u_def c_def by (rule cos_product_bounds)
  have "c * s \<le> (1 - u) * s" using ch s0 by (rule mult_right_mono)
  moreover have "(1 - u) * s \<le> (1 - u) * 1" using s1 u1 by (intro mult_left_mono) simp_all
  ultimately have "u + c * s \<le> 1" by simp
  thus ?thesis by (simp add: haversine_a_alt u_def s_def c_def)
qed


lemma haversine_a_same: "haversine_a p g p g = 0"
  by (simp add: haversine_a_alt)

lemma calculate_distance_value:
  "calculate_distance lat1 lng1 lat2 lng2 =
     Inr (6371 * (2 * arcsin (sqrt
       (haversine_a (radians lat1) (radians lng1) (radians lat2) (radians lng2)))))"
proof -
  let ?a = "haversine_a (radians lat1) (radians lng1) (radians lat2) (radians lng2)"
  have a0: "0 \<le> ?a" by (rule haversine_a_nonneg)
  have a1: "?a \<le> 1" by (rule haversine_a_le_1)
  have r0: "0 \<le> sqrt ?a" using a0 by simp
  have r1: "\<not> 1 < sqrt ?a" using a1 by simp
  have r2: "\<not> sqrt ?a < - 1" using r0 by linarith
  have a2: "\<not> ?a < 0" using a0 by simp
  have s: "py_sqrt ?a = Inr (sqrt ?a)"
    unfolding py_sqrt_def using a2 by (rule if_not_P)
  have t: "py_asin (sqrt ?a) = Inr (arcsin (sqrt ?a))"
    unfolding py_asin_def using r1 r2 by (intro if_not_P) blast
  show ?thesis
    by (simp only: calculate_distance_def Let_def s t sum.case R_def)
qed



lemma distance_same: "calculate_distance y x y x = Inr 0"
  by (simp add: calculate_distance_value haversine_a_same)

lemma distance_antipode: "calculate_distance 0 0 0 180 = Inr (6371 * pi)"
proof -
  have "haversine_a (radians 0) (radians 0) (radians 0) (radians 180) = 1"
    by (simp add: haversine_a_alt radians_def)
  thus ?thesis by (simp add: calculate_distance_value)
qed

section \<open>The loops as list functions\<close>

lemma types_loop_eq:
  "types_loop pyd data types = types @ List.map_filter (salvage_type pyd) data"
  by (induction data arbitrary: types)
     (simp_all add: salvage_type_def split: sum.splits)

lemma locations_loop_zero: "locations_loop pyd y x 0 data acc = acc"
  by (induction data arbitrary: acc) (simp_all split: sum.splits)

lemma locations_loop_nonzero:
  "r \<noteq> 0 \<Longrightarrow> locations_loop pyd y x r data acc =
     acc @ filter (within_radius y x r) (List.map_filter (salvage_location pyd) data)"
  by (induction data arbitrary: acc)
     (simp_all add: salvage_location_def within_radius_def split: sum.splits)

lemma map_filter_append:
  "List.map_filter f (xs @ ys) = List.map_filter f xs @ List.map_filter f ys"
  by (simp add: List.map_filter_def)

lemma filter_loop_eq:
  "filter_loop q all_types acc =
     acc @ filter (\<lambda>ft. some_name_contains q (all_names ft)) all_types"
  by (induction all_types arbitrary: acc) simp_all

lemma some_name_contains_iff:
  "some_name_contains q ns \<longleftrightarrow> (\<exists>n \<in> set ns. sublist q (lower n))"
  by (induction ns) simp_all

lemma some_name_equals_iff:
  "some_name_equals q ns \<longleftrightarrow> (\<exists>n \<in> set ns. lower n = q)"
  by (induction ns) simp_all

lemma contains_query_loop:
  "some_name_contains (lower q) (all_names ft) = contains_query q ft"
  by (simp add: some_name_contains_iff contains_query_def all_names_def)

lemma equals_name_loop:
  "some_name_equals (lower q) (all_names ft) = equals_name q ft"
  by (simp add: some_name_equals_iff equals_name_def all_names_def)

lemma exact_loop_eq: "exact_loop (lower q) all_types = List.find (equals_name q) all_types"
  by (induction all_types) (simp_all add: equals_name_loop)

lemma partial_loop_eq: "partial_loop (lower q) all_types = List.find (contains_query q) all_types"
  by (induction all_types) (simp_all add: contains_query_loop)

lemma set_slice_to: "set (slice_to xs n) \<subseteq> set xs"
  by (simp add: slice_to_def set_take_subset)

lemma subseq_slice_to: "subseq (slice_to xs n) xs"
proof -
  have "subseq (take k xs) xs" for k
    by (metis append_take_drop_id subseq_order.order_refl list_emb_append2 append_Nil2
        list_emb_append_mono list_emb_Nil)
  thus ?thesis by (simp add: slice_to_def)
qed

lemma length_slice_to: "0 \<le> n \<Longrightarrow> int (length (slice_to xs n)) \<le> n"
  by (simp add: slice_to_def)

lemma locations_loop_within:
  "set (locations_loop pyd y x r data []) \<subseteq> {l. within_radius y x r l}"
  by (cases "r = 0") (auto simp add: locations_loop_zero locations_loop_nonzero)

lemma locations_loop_subseq:
  "subseq (locations_loop pyd y x r data []) (List.map_filter (salvage_location pyd) data)"
  by (cases "r = 0") (simp_all add: locations_loop_zero locations_loop_nonzero)

section \<open>The three paths of \<^verbatim>\<open>get_all_types\<close>\<close>

lemma get_all_types_no_key:
  "\<not> truthy (api_key self) \<Longrightarrow>
   get_all_types pyd remote now self sent = (Inl key_missing, self, sent)"
  by (simp add: get_all_types_def)

lemma get_all_types_hit:
  "truthy (api_key self) \<Longrightarrow> cache_hit self now \<Longrightarrow>
   get_all_types pyd remote now self sent = (Inr (the (types_cache self)), self, sent)"
  by (simp add: get_all_types_def)

lemma get_all_types_miss:
  "truthy (api_key self) \<Longrightarrow> \<not> cache_hit self now \<Longrightarrow>
   get_all_types pyd remote now self sent =
     (case response_json (remote (Get_types (the (api_key self)))) of
        Inl e \<Rightarrow> (Inl e, self, sent @ [Get_types (the (api_key self))])
      | Inr data \<Rightarrow>
          (case py_iter data of
             Inl e \<Rightarrow> (Inl e, self, sent @ [Get_types (the (api_key self))])
           | Inr items \<Rightarrow>
               (Inr (List.map_filter (salvage_type pyd) items),
                self\<lparr>types_cache := Some (List.map_filter (salvage_type pyd) items),
                     cache_timestamp := Some now\<rparr>,
                sent @ [Get_types (the (api_key self))])))"
  by (simp add: get_all_types_def Let_def types_loop_eq split: sum.splits)


lemma get_all_types_error_keeps_state:
  "get_all_types pyd remote now self sent = (Inl e, self', sent') \<Longrightarrow> self' = self"
  by (cases "truthy (api_key self)"; cases "cache_hit self now")
     (auto simp add: get_all_types_no_key get_all_types_hit get_all_types_miss split: sum.splits)

lemma get_locations_ok:
  assumes "get_locations pyd remote center_lat center_lng radius_km type_id limit self sent =
     (Inr locations, self', sent')"
  shows "\<exists>data items.
      remote (Get_locations center_lat center_lng limit (types_param type_id)
        (the (api_key self))) = Json_body data \<and>
      py_iter data = Inr items \<and>
      locations = slice_to (locations_loop pyd center_lat center_lng radius_km items []) limit \<and>
      truthy (api_key self) \<and> self' = self \<and>
      sent' = sent @ [Get_locations center_lat center_lng limit (types_param type_id)
        (the (api_key self))]"
proof -
  let ?req = "Get_locations center_lat center_lng limit (types_param type_id) (the (api_key self))"
  have k: "truthy (api_key self)"
    using assms by (auto simp add: get_locations_def split: if_splits)
  from assms k obtain data where d: "response_json (remote ?req) = Inr data"
    by (auto simp add: get_locations_def Let_def split: sum.splits)
  hence r: "remote ?req = Json_body data"
    by (cases "remote ?req") simp_all
  from assms k d obtain items where i: "py_iter data = Inr items"
    by (auto simp add: get_locations_def Let_def split: sum.splits)
  from assms k d i show ?thesis
    using r by (auto simp add: get_locations_def Let_def)
qed

section \<open>Well-shaped taxonomy records\<close>

lemma those_map_str:
  assumes "\<And>s. str_field pyd (JStr s) = Some s"
  shows "those (map (str_field pyd \<circ> JStr) names) = Some names"
  by (induction names) (simp_all add: assms)

lemma concat_lang_dict:
  "concat (map ((\<lambda>kv. names_of_lang (snd kv)) \<circ>
      (\<lambda>kv. (fst kv, JArr (map JStr (snd kv))))) langs) = map JStr (concat (map snd langs))"
  by (induction langs) simp_all

lemma collect_common_names_shaped:
  "map_of item ''common_names'' = map_option lang_dict langs \<Longrightarrow>
   collect_common_names item = map JStr (flattened langs)"
  by (cases langs)
     (simp_all add: collect_common_names_def lang_dict_def flattened_def concat_lang_dict)

lemma collect_scientific_names_shaped:
  "map_of item ''scientific_names'' = map_option name_list scis \<Longrightarrow>
   collect_scientific_names item = map JStr (verbatim scis)"
  by (cases scis) (simp_all add: collect_scientific_names_def name_list_def verbatim_def)

lemma primary_name_str:
  "(\<And>s. str_field pyd (JStr s) = Some s) \<Longrightarrow>
   str_field pyd (primary_name (map JStr cs) (map JStr ss)) = Some (display_name cs ss)"
  by (cases cs; cases ss) (simp_all add: primary_name_def display_name_def)

lemma primary_scientific_str:
  "(\<And>s. str_field pyd (JStr s) = Some s) \<Longrightarrow>
   str_field pyd (primary_scientific (map JStr ss)) = Some (case ss of [] \<Rightarrow> [] | s # r \<Rightarrow> s)"
  by (cases ss) (simp_all add: primary_scientific_def)

section \<open>The example values, evaluated\<close>

lemma client_simps:
  "api_key client = Some ''secret''" "types_cache client = None" "cache_timestamp client = None"
  "api_key (cached_client ts) = Some ''secret''" "types_cache (cached_client ts) = Some ts"
  "cache_timestamp (cached_client ts) = Some 0"
  by (simp_all add: client_def cached_client_def FallingFruitAPI_init_def API_KEY_def)

lemma salvage_examples:
  "salvage_type strict apple_record = Some apple_parsed"
  "salvage_type strict no_id_record = None"
  "salvage_type strict (JInt 7) = None"
  "salvage_type strict nameless_record = Some nameless_parsed"
  by (simp_all add: salvage_type_def apple_record_def no_id_record_def nameless_record_def
      apple_parsed_def nameless_parsed_def strict_def Let_def FruitType_init_def
      validate_type_def collect_common_names_def collect_scientific_names_def
      primary_name_def primary_scientific_def)


lemma cached_hit:
  "now < cache_duration \<Longrightarrow>
   get_all_types pyd remote now (cached_client ts) sent = (Inr ts, cached_client ts, sent)"
  by (simp add: get_all_types_hit client_simps cache_hit_def)

lemma apple_tests:
  "equals_name ''apple'' apple" "\<not> equals_name ''apple'' crabapple"
  "contains_query ''apple'' apple" "contains_query ''apple'' crabapple"
  "\<not> contains_query ''apple'' pear" "\<not> equals_name ''apple'' pear"
  "contains_query ''apple'' apple_parsed"
  by code_simp+

lemma within_examples:
  "within_radius 0 0 5 (location_at i 0 0)" "\<not> within_radius 0 0 5 (location_at i 0 180)"
proof -
  show "within_radius 0 0 5 (location_at i 0 0)"
    by (simp add: within_radius_def location_at_def distance_same)
  have "\<not> 6371 * pi \<le> 5" using pi_ge_two by simp
  thus "\<not> within_radius 0 0 5 (location_at i 0 180)"
    by (simp add: within_radius_def location_at_def distance_antipode)
qed

lemma salvage_place: "salvage_location strict (place i y x) = Some (location_at i y x)"
  by (simp add: salvage_location_def place_def location_at_def validate_location_def
      required_def with_default_def strict_def)

lemma salvage_null: "salvage_location strict JNull = None"
  by (simp add: salvage_location_def)

lemma places_loop:
  "locations_loop strict 0 0 5 [place 1 0 0, place 2 0 180, JNull, place 3 0 0] [] =
     [location_at 1 0 0, location_at 3 0 0]"
  by (subst locations_loop_nonzero) (simp_all add: salvage_place salvage_null within_examples)

lemma twins_loop:
  "locations_loop strict 0 0 5 [place 1 0 0, place 2 0 0] [] =
     [location_at 1 0 0, location_at 2 0 0]"
  by (subst locations_loop_nonzero) (simp_all add: salvage_place within_examples)

lemma places_call:
  "get_locations strict places_remote 0 0 5 None 10 client [] =
     (Inr [location_at 1 0 0, location_at 3 0 0], client, [Get_locations 0 0 10 None ''secret''])"
  by (simp add: get_locations_def client_simps places_remote_def places_loop slice_to_def
      del: locations_loop.simps)

lemma twins_call:
  "get_locations strict twins_remote 0 0 5 None (- 1) client [] =
     (Inr [location_at 1 0 0], client, [Get_locations 0 0 (- 1) None ''secret''])"
  by (simp add: get_locations_def client_simps twins_remote_def twins_loop slice_to_def
      del: locations_loop.simps)

section \<open>Location fetcher\<close>

text \<open>
  Claim C1.  Whenever \<^verbatim>\<open>get_locations\<close> returns a list, every location in it has a
  haversine distance from the center \<open>(center_lat, center_lng)\<close> that is defined and does
  not exceed \<open>radius_km\<close>; hence a location whose distance exceeds \<open>radius_km\<close> is never
  in the output, whatever the remote service sent.
\<close>

theorem C1_locations_within_radius:
  assumes "get_locations pyd remote center_lat center_lng radius_km type_id limit self sent =
     (Inr locations, self', sent')"
  shows "(\<forall>location \<in> set locations.
            \<exists>d. calculate_distance center_lat center_lng (lat location) (lng location) = Inr d \<and>
                d \<le> real_of_int radius_km) \<and>
         (\<forall>location d.
            calculate_distance center_lat center_lng (lat location) (lng location) = Inr d \<and>
            real_of_int radius_km < d \<longrightarrow> location \<notin> set locations)"
proof -
  from get_locations_ok [OF assms] obtain items where
    "locations = slice_to (locations_loop pyd center_lat center_lng radius_km items []) limit"
    by blast
  hence "set locations \<subseteq> {l. within_radius center_lat center_lng radius_km l}"
    using set_slice_to locations_loop_within by (metis subset_trans)
  hence w: "within_radius center_lat center_lng radius_km l" if "l \<in> set locations" for l
    using that by blast
  show ?thesis
    using w by (fastforce simp add: within_radius_def split: sum.splits)
qed

text \<open>The service answers with a place at the center, a place on the other side of the
  globe, a malformed record and a second place at the center; radius 5 km.\<close>

theorem C1_locations_within_radius_witness:
  "get_locations strict places_remote 0 0 5 None 10 client [] =
     (Inr [location_at 1 0 0, location_at 3 0 0], client, [Get_locations 0 0 10 None ''secret'']) \<and>
   calculate_distance 0 0 (lat (location_at 1 0 0)) (lng (location_at 1 0 0)) = Inr 0 \<and>
   calculate_distance 0 0 (lat (location_at 2 0 180)) (lng (location_at 2 0 180)) =
     Inr (6371 * pi) \<and>
   real_of_int 5 < 6371 * pi \<and>
   location_at 2 0 180 \<notin> set [location_at 1 0 0, location_at 3 0 0]"
proof -
  note w = C1_locations_within_radius [OF places_call]
  have far: "calculate_distance 0 0 (lat (location_at 2 0 180)) (lng (location_at 2 0 180)) =
      Inr (6371 * pi)"
    by (simp add: location_at_def distance_antipode)
  have gt: "real_of_int 5 < 6371 * pi" using pi_ge_two by simp
  from w have "\<forall>location d.
      calculate_distance 0 0 (lat location) (lng location) = Inr d \<and> real_of_int 5 < d \<longrightarrow>
      location \<notin> set [location_at 1 0 0, location_at 3 0 0]"
    by (rule conjunct2)
  from this [rule_format, OF conjI [OF far gt]]
  have out: "location_at 2 0 180 \<notin> set [location_at 1 0 0, location_at 3 0 0]" .
  have near: "calculate_distance 0 0 (lat (location_at 1 0 0)) (lng (location_at 1 0 0)) = Inr 0"
    by (simp add: location_at_def distance_same)
  from places_call near far gt out show ?thesis by blast
qed

text \<open>
  Claim C8, as amended.  Whenever \<^verbatim>\<open>get_locations\<close> returns a list: if \<open>limit\<close> is not
  negative the list has at most \<open>limit\<close> elements; and for every \<open>limit\<close> the list is
  an order-preserving subsequence of the records of the remote answer that parse into a
  \<^verbatim>\<open>FruitLocation\<close>, the records that do not parse being dropped.
\<close>

theorem C8_cap_and_order:
  assumes "get_locations pyd remote center_lat center_lng radius_km type_id limit self sent =
     (Inr locations, self', sent')"
  shows "(0 \<le> limit \<longrightarrow> int (length locations) \<le> limit) \<and>
         (\<exists>data items.
            remote (Get_locations center_lat center_lng limit (types_param type_id)
              (the (api_key self))) = Json_body data \<and>
            py_iter data = Inr items \<and>
            subseq locations (List.map_filter (salvage_location pyd) items))"
proof -
  from get_locations_ok [OF assms] obtain data items where
    r: "remote (Get_locations center_lat center_lng limit (types_param type_id)
        (the (api_key self))) = Json_body data" and
    i: "py_iter data = Inr items" and
    l: "locations = slice_to (locations_loop pyd center_lat center_lng radius_km items []) limit"
    by blast
  have "subseq locations (locations_loop pyd center_lat center_lng radius_km items [])"
    unfolding l by (rule subseq_slice_to)
  hence "subseq locations (List.map_filter (salvage_location pyd) items)"
    using locations_loop_subseq by (rule subseq_order.trans)
  moreover have "0 \<le> limit \<longrightarrow> int (length locations) \<le> limit"
    unfolding l by (simp add: length_slice_to)
  ultimately show ?thesis using r i by blast
qed

theorem C8_cap_and_order_witness:
  "get_locations strict places_remote 0 0 5 None 10 client [] =
     (Inr [location_at 1 0 0, location_at 3 0 0], client, [Get_locations 0 0 10 None ''secret'']) \<and>
   int (length [location_at 1 0 0, location_at 3 0 0]) \<le> 10 \<and>
   subseq [location_at 1 0 0, location_at 3 0 0]
     (List.map_filter (salvage_location strict) [place 1 0 0, place 2 0 180, JNull, place 3 0 0])"
proof -
  note w = C8_cap_and_order [OF places_call]
  have l: "(0::int) \<le> 10" by simp
  note len = w [THEN conjunct1, rule_format, OF l]
  from w obtain data items where
    "places_remote (Get_locations 0 0 10 (types_param None) (the (api_key client))) =
       Json_body data"
    "py_iter data = Inr items"
    "subseq [location_at 1 0 0, location_at 3 0 0] (List.map_filter (salvage_location strict) items)"
    by blast
  hence "subseq [location_at 1 0 0, location_at 3 0 0]
     (List.map_filter (salvage_location strict) [place 1 0 0, place 2 0 180, JNull, place 3 0 0])"
    by (auto simp add: places_remote_def)
  with places_call len show ?thesis by blast
qed

text \<open>With \<open>limit = - 1\<close> and two places at the center in the answer, the slice
  \<^verbatim>\<open>locations[:-1]\<close> keeps the first of them: one element, and 1 is not at most \<open>- 1\<close>.\<close>

theorem C8_negative_limit_counterexample:
  "get_locations strict twins_remote 0 0 5 None (- 1) client [] =
     (Inr [location_at 1 0 0], client, [Get_locations 0 0 (- 1) None ''secret'']) \<and>
   \<not> int (length [location_at 1 0 0]) \<le> - 1"
  using twins_call by simp

section \<open>Taxonomy parser\<close>

text \<open>
  Claim C5.  For a record with a valid identifier whose \<^verbatim>\<open>common_names\<close>, if present,
  maps language codes to lists of names and whose \<^verbatim>\<open>scientific_names\<close>, if present, is a
  list of names, the parser yields a FruitType whose common names are the lists of all
  languages flattened in order (the language codes are gone), whose scientific names are
  copied verbatim, and whose display name is the first common name, otherwise the first
  scientific name, otherwise \<^verbatim>\<open>Unknown\<close>.  Pydantic is assumed to take a string for a
  string field as it is.
\<close>

theorem C5_taxonomy_parser:
  assumes str: "\<And>s. str_field pyd (JStr s) = Some s"
    and ident: "map_of item ''id'' = Some idv" "int_field pyd idv = Some i"
    and commons: "map_of item ''common_names'' = map_option lang_dict langs"
    and scis: "map_of item ''scientific_names'' = map_option name_list names"
  shows "parse_type pyd (JObj item) =
     Inr \<lparr>ft_id = i,
          name = display_name (flattened langs) (verbatim names),
          scientific_name = (case verbatim names of [] \<Rightarrow> [] | s # rest \<Rightarrow> s),
          common_names = flattened langs,
          scientific_names = verbatim names\<rparr>"
  using ident
  by (simp add: Let_def FruitType_init_def validate_type_def
      collect_common_names_shaped [OF commons] collect_scientific_names_shaped [OF scis]
      those_map_str [OF str] primary_name_str [OF str] primary_scientific_str [OF str])

text \<open>The record with \<^verbatim>\<open>{"en": ["Apple", "Crabapple"], "fr": ["Pomme"]}\<close> and
  \<^verbatim>\<open>["Malus domestica"]\<close>.\<close>

theorem C5_taxonomy_parser_witness:
  "parse_type strict apple_record =
     Inr \<lparr>ft_id = 14, name = ''Apple'', scientific_name = ''Malus domestica'',
          common_names = [''Apple'', ''Crabapple'', ''Pomme''],
          scientific_names = [''Malus domestica'']\<rparr>"
proof -
  have "parse_type strict apple_record =
     Inr \<lparr>ft_id = 14,
          name = display_name
            (flattened (Some [(''en'', [''Apple'', ''Crabapple'']), (''fr'', [''Pomme''])]))
            (verbatim (Some [''Malus domestica''])),
          scientific_name =
            (case verbatim (Some [''Malus domestica'']) of [] \<Rightarrow> [] | s # rest \<Rightarrow> s),
          common_names =
            flattened (Some [(''en'', [''Apple'', ''Crabapple'']), (''fr'', [''Pomme''])]),
          scientific_names = verbatim (Some [''Malus domestica''])\<rparr>"
    unfolding apple_record_def
    by (rule C5_taxonomy_parser [where idv = "JInt 14"])
       (simp_all add: strict_def lang_dict_def name_list_def)
  thus ?thesis by (simp add: flattened_def verbatim_def display_name_def)
qed

text \<open>
  Claim C7.  When \<^verbatim>\<open>get_all_types\<close> fetches and the service answers with a list of raw
  records, the result is one FruitType for every salvageable record, in the order of the
  answer; a record without the key \<^verbatim>\<open>id\<close> raises \<^verbatim>\<open>KeyError\<close> inside the \<^verbatim>\<open>try\<close> block
  and is not salvageable; and a record that is not salvageable, wherever it stands in the
  list, leaves the parsing of the records around it as it would be without it.
\<close>

theorem C7_malformed_records_dropped:
  assumes "truthy (api_key self)" and "\<not> cache_hit self now"
    and "remote (Get_types (the (api_key self))) = Json_body (JArr data)"
  shows "get_all_types pyd remote now self sent =
           (Inr (List.map_filter (salvage_type pyd) data),
            self\<lparr>types_cache := Some (List.map_filter (salvage_type pyd) data),
                 cache_timestamp := Some now\<rparr>,
            sent @ [Get_types (the (api_key self))]) \<and>
         (\<forall>item. map_of item ''id'' = None \<longrightarrow>
            parse_type pyd (JObj item) = Inl (KeyError ''id'') \<and>
            salvage_type pyd (JObj item) = None) \<and>
         (\<forall>before bad after. salvage_type pyd bad = None \<longrightarrow>
            types_loop pyd (before @ bad # after) [] = types_loop pyd (before @ after) [])"
  using assms
  by (simp add: get_all_types_miss types_loop_eq map_filter_append salvage_type_def Let_def)

theorem C7_malformed_records_dropped_witness:
  "get_all_types strict types_remote 5 client [] =
     (Inr [apple_parsed, nameless_parsed],
      client\<lparr>types_cache := Some [apple_parsed, nameless_parsed], cache_timestamp := Some 5\<rparr>,
      [Get_types ''secret'']) \<and>
   parse_type strict no_id_record = Inl (KeyError ''id'') \<and>
   types_loop strict [apple_record, no_id_record, nameless_record] [] =
     types_loop strict [apple_record, nameless_record] []"
proof -
  have k: "truthy (api_key client)" and m: "\<not> cache_hit client 5"
    and r: "types_remote (Get_types (the (api_key client))) =
      Json_body (JArr [apple_record, no_id_record, JInt 7, nameless_record])"
    by (simp_all add: client_simps cache_hit_def types_remote_def)
  note w = C7_malformed_records_dropped [where self = client and now = 5
      and remote = types_remote and pyd = strict and sent = "[]"
      and data = "[apple_record, no_id_record, JInt 7, nameless_record]", OF k m r]
  have n: "map_of [(''scientific_names'', JArr [JStr ''Rubus''])] ''id'' = None"
    by simp
  have b: "salvage_type strict no_id_record = None"
    by (simp add: salvage_examples)
  from w have 1: "get_all_types strict types_remote 5 client [] =
     (Inr [apple_parsed, nameless_parsed],
      client\<lparr>types_cache := Some [apple_parsed, nameless_parsed], cache_timestamp := Some 5\<rparr>,
      [Get_types ''secret''])"
    by (simp add: salvage_examples client_simps)
  from w n have 2: "parse_type strict no_id_record = Inl (KeyError ''id'')"
    unfolding no_id_record_def by blast
  from w b have "types_loop strict ([apple_record] @ no_id_record # [nameless_record]) [] =
     types_loop strict ([apple_record] @ [nameless_record]) []"
    by blast
  hence 3: "types_loop strict [apple_record, no_id_record, nameless_record] [] =
     types_loop strict [apple_record, nameless_record] []"
    by simp
  from 1 2 3 show ?thesis by blast
qed

section \<open>Type cache\<close>



text \<open>
  Claim C6.  Without an API key \<^verbatim>\<open>get_all_types\<close> raises the configuration error and
  sends no request.  With a key and no valid cache entry, a response with an error status
  raises \<^verbatim>\<open>HTTPStatusError\<close> after the one request.  Whenever \<^verbatim>\<open>get_all_types\<close> raises,
  the client, with its cached value and timestamp, is what it was before the call.
\<close>

theorem C6_errors_keep_cache:
  "(\<not> truthy (api_key self) \<longrightarrow>
      get_all_types pyd remote now self sent = (Inl key_missing, self, sent)) \<and>
   (truthy (api_key self) \<and> \<not> cache_hit self now \<and>
    remote (Get_types (the (api_key self))) = Error_status \<longrightarrow>
      get_all_types pyd remote now self sent =
        (Inl HTTPStatusError, self, sent @ [Get_types (the (api_key self))])) \<and>
   (\<forall>e self' sent'. get_all_types pyd remote now self sent = (Inl e, self', sent') \<longrightarrow>
      self' = self \<and> types_cache self' = types_cache self \<and>
      cache_timestamp self' = cache_timestamp self)"
  using get_all_types_error_keeps_state [of pyd remote now self sent]
  by (auto simp add: get_all_types_no_key get_all_types_miss)

theorem C6_errors_keep_cache_witness:
  "get_all_types strict types_remote 5 (FallingFruitAPI_init None) [] =
     (Inl key_missing, FallingFruitAPI_init None, []) \<and>
   get_all_types strict failing_remote cache_duration (cached_client [apple]) [] =
     (Inl HTTPStatusError, cached_client [apple], [Get_types ''secret''])"
proof -
  have nk: "\<not> truthy (api_key (FallingFruitAPI_init None))"
    by (simp add: FallingFruitAPI_init_def API_KEY_def)
  have st: "truthy (api_key (cached_client [apple])) \<and>
      \<not> cache_hit (cached_client [apple]) cache_duration \<and>
      failing_remote (Get_types (the (api_key (cached_client [apple])))) = Error_status"
    by (simp add: client_simps cache_hit_def failing_remote_def)
  from C6_errors_keep_cache [of "FallingFruitAPI_init None" strict types_remote 5 "[]"] nk
  have 1: "get_all_types strict types_remote 5 (FallingFruitAPI_init None) [] =
     (Inl key_missing, FallingFruitAPI_init None, [])"
    by blast
  from C6_errors_keep_cache [of "cached_client [apple]" strict failing_remote cache_duration "[]"] st
  have 2: "get_all_types strict failing_remote cache_duration (cached_client [apple]) [] =
     (Inl HTTPStatusError, cached_client [apple], [Get_types ''secret''])"
    by (simp add: client_simps)
  from 1 2 show ?thesis by blast
qed

text \<open>
  Claim C10.  The empty string from the environment becomes \<^verbatim>\<open>None\<close>, so both give the
  same client; and a client whose \<^verbatim>\<open>api_key\<close> attribute is the empty string and a client
  whose \<^verbatim>\<open>api_key\<close> is \<^verbatim>\<open>None\<close> both raise the same configuration error in
  \<^verbatim>\<open>get_all_types\<close> and in \<^verbatim>\<open>get_locations\<close>, with no request sent and the client
  unchanged.
\<close>

theorem C10_empty_key_is_absent:
  "API_KEY (Some []) = API_KEY None \<and>
   FallingFruitAPI_init (Some []) = FallingFruitAPI_init None \<and>
   get_all_types pyd remote now (self\<lparr>api_key := Some []\<rparr>) sent =
     (Inl key_missing, self\<lparr>api_key := Some []\<rparr>, sent) \<and>
   get_all_types pyd remote now (self\<lparr>api_key := None\<rparr>) sent =
     (Inl key_missing, self\<lparr>api_key := None\<rparr>, sent) \<and>
   get_locations pyd remote center_lat center_lng radius_km type_id limit
       (self\<lparr>api_key := Some []\<rparr>) sent =
     (Inl key_missing, self\<lparr>api_key := Some []\<rparr>, sent) \<and>
   get_locations pyd remote center_lat center_lng radius_km type_id limit
       (self\<lparr>api_key := None\<rparr>) sent =
     (Inl key_missing, self\<lparr>api_key := None\<rparr>, sent)"
proof -
  have env: "API_KEY (Some []) = API_KEY None"
    by (simp add: API_KEY_def)
  hence init: "FallingFruitAPI_init (Some []) = FallingFruitAPI_init None"
    by (simp add: FallingFruitAPI_init_def)
  have falsy: "\<not> truthy (api_key (self\<lparr>api_key := k\<rparr>))" if "k = Some [] \<or> k = None" for k
    using that by auto
  have types: "get_all_types pyd remote now (self\<lparr>api_key := k\<rparr>) sent =
      (Inl key_missing, self\<lparr>api_key := k\<rparr>, sent)" if "k = Some [] \<or> k = None" for k
    using falsy [OF that] by (rule get_all_types_no_key)
  have locs: "get_locations pyd remote center_lat center_lng radius_km type_id limit
        (self\<lparr>api_key := k\<rparr>) sent =
      (Inl key_missing, self\<lparr>api_key := k\<rparr>, sent)" if "k = Some [] \<or> k = None" for k
    using falsy [OF that] by (simp add: get_locations_def)
  show ?thesis
    using env init types [of "Some []"] types [of None] locs [of "Some []"] locs [of None]
    by simp
qed

theorem C10_empty_key_is_absent_witness:
  "get_all_types strict types_remote 5 (client\<lparr>api_key := Some []\<rparr>) [] =
     (Inl key_missing, client\<lparr>api_key := Some []\<rparr>, []) \<and>
   get_all_types strict types_remote 5 (client\<lparr>api_key := None\<rparr>) [] =
     (Inl key_missing, client\<lparr>api_key := None\<rparr>, []) \<and>
   get_locations strict types_remote 0 0 5 None 10 (client\<lparr>api_key := Some []\<rparr>) [] =
     (Inl key_missing, client\<lparr>api_key := Some []\<rparr>, []) \<and>
   get_locations strict types_remote 0 0 5 None 10 (client\<lparr>api_key := None\<rparr>) [] =
     (Inl key_missing, client\<lparr>api_key := None\<rparr>, []) \<and>
   FallingFruitAPI_init (Some []) = FallingFruitAPI_init None"
  using C10_empty_key_is_absent [where pyd = strict and remote = types_remote and now = 5 and self = client
      and sent = "[]" and center_lat = 0 and center_lng = 0 and radius_km = 5
      and type_id = None and limit = 10]
  by simp

section \<open>Type search\<close>

text \<open>
  Claim C3.  When \<^verbatim>\<open>get_all_types\<close> returns the taxonomy,
  \<^verbatim>\<open>find_fruit_type_by_name\<close> returns the first FruitType in cache order one of whose
  common or scientific names equals the given name up to case; if there is none, the
  first FruitType in cache order one of whose names contains the given name up to case;
  and \<^verbatim>\<open>None\<close> if there is none either.
\<close>

theorem C3_exact_then_partial:
  assumes "get_all_types pyd remote now self sent = (Inr all_types, self', sent')"
  shows "find_fruit_type_by_name pyd remote now wanted_name self sent =
           (Inr (resolve_exact_or_best wanted_name all_types), self', sent')"
  using assms
  by (simp add: find_fruit_type_by_name_def resolve_exact_or_best_def exact_loop_eq
      partial_loop_eq split: option.splits)

text \<open>With the types named Apple and Crabapple cached in either order, \<^verbatim>\<open>apple\<close>
  resolves to Apple; without Apple it resolves to Crabapple; with neither, to nothing.\<close>

theorem C3_exact_then_partial_witness:
  "find_fruit_type_by_name strict failing_remote 7 ''apple'' (cached_client [crabapple, apple]) [] =
     (Inr (Some apple), cached_client [crabapple, apple], []) \<and>
   find_fruit_type_by_name strict failing_remote 7 ''apple'' (cached_client [apple, crabapple]) [] =
     (Inr (Some apple), cached_client [apple, crabapple], []) \<and>
   find_fruit_type_by_name strict failing_remote 7 ''apple'' (cached_client [pear, crabapple]) [] =
     (Inr (Some crabapple), cached_client [pear, crabapple], []) \<and>
   find_fruit_type_by_name strict failing_remote 7 ''apple'' (cached_client [pear]) [] =
     (Inr None, cached_client [pear], [])"
proof -
  have h: "get_all_types strict failing_remote 7 (cached_client ts) [] =
     (Inr ts, cached_client ts, [])" for ts
    by (simp add: cached_hit cache_duration_def)
  from C3_exact_then_partial [OF h, of "''apple''" "[crabapple, apple]"]
       C3_exact_then_partial [OF h, of "''apple''" "[apple, crabapple]"]
       C3_exact_then_partial [OF h, of "''apple''" "[pear, crabapple]"]
       C3_exact_then_partial [OF h, of "''apple''" "[pear]"]
  show ?thesis
    by (simp add: resolve_exact_or_best_def apple_tests)
qed

text \<open>
  Claim C4.  When \<^verbatim>\<open>get_all_types\<close> returns the taxonomy, \<^verbatim>\<open>get_types\<close> without a
  query, or with the empty string, returns that list as it is; with a non-empty query it
  returns the list filtered, in its order and each entry kept at most once, by the test
  that the lowercase query is a substring of the lowercase form of one of the entry's
  common or scientific names.
\<close>

theorem C4_search:
  assumes "get_all_types pyd remote now self sent = (Inr all_types, self', sent')"
  shows "get_types pyd remote now None self sent = (Inr all_types, self', sent') \<and>
         get_types pyd remote now (Some []) self sent = (Inr all_types, self', sent') \<and>
         (query \<noteq> [] \<longrightarrow>
            get_types pyd remote now (Some query) self sent =
              (Inr (filter (contains_query query) all_types), self', sent'))"
  using assms by (simp add: get_types_def filter_loop_eq contains_query_loop)

text \<open>The cached type with the common names Apple, Crabapple and Pomme has two names
  that contain \<^verbatim>\<open>apple\<close>, and is returned once.\<close>

theorem C4_search_witness:
  "get_types strict failing_remote 7 None (cached_client [crabapple, pear, apple_parsed]) [] =
     (Inr [crabapple, pear, apple_parsed], cached_client [crabapple, pear, apple_parsed], []) \<and>
   get_types strict failing_remote 7 (Some []) (cached_client [crabapple, pear, apple_parsed]) [] =
     (Inr [crabapple, pear, apple_parsed], cached_client [crabapple, pear, apple_parsed], []) \<and>
   get_types strict failing_remote 7 (Some ''apple'')
       (cached_client [crabapple, pear, apple_parsed]) [] =
     (Inr [crabapple, apple_parsed], cached_client [crabapple, pear, apple_parsed], [])"
proof -
  have h: "get_all_types strict failing_remote 7 (cached_client [crabapple, pear, apple_parsed]) [] =
     (Inr [crabapple, pear, apple_parsed], cached_client [crabapple, pear, apple_parsed], [])"
    by (simp add: cached_hit cache_duration_def)
  have q: "''apple'' \<noteq> []" by simp
  from C4_search [OF h, of "''apple''"] q show ?thesis
    by (simp add: apple_tests)
qed

end
